theory Spec2Isabelle
  imports Complex_Main "HOL-Library.Char_ord" "HOL-Library.List_Lexorder" "HOL-Library.Multiset"
begin

section \<open>JavaScript values\<close>

text \<open>
  The strict download builder of \<^verbatim>\<open>src/utils/csv.ts\<close> works on untyped JavaScript values
  (\<^verbatim>\<open>any\<close>). A number is a finite value or one of the three non-finite ones that
  \<^verbatim>\<open>Number.isFinite\<close> rejects. A finite number is an exact rational here: the rounding and the
  overflow of double-precision arithmetic are not modelled, and \<^verbatim>\<open>-0\<close> is \<open>0\<close>.
  A string is a list of code units of the Latin-1 range (8 bits). An object is the list
  of its own enumerable properties in enumeration order (keys distinct). Inherited
  members, and the indices and \<^verbatim>\<open>length\<close> of arrays and strings, are not modelled as
  properties: no path component or alias of this program names one.
\<close>

datatype jsnum = Fin rat | NaN | PosInf | NegInf

datatype val = VUndef | VNull | VBool bool | VNum jsnum | VStr string
  | VArr "val list" | VObj "(string \<times> val) list"

text \<open>\<^verbatim>\<open>v == null\<close>: true of \<^verbatim>\<open>null\<close> and \<^verbatim>\<open>undefined\<close> only.\<close>

fun nullish :: "val \<Rightarrow> bool" where
  "nullish VUndef = True"
| "nullish VNull = True"
| "nullish _ = False"

text \<open>\<^verbatim>\<open>a ?? b\<close> on values, and on the results of the coercers (\<open>None\<close> is \<^verbatim>\<open>null\<close>).\<close>

definition qq :: "val \<Rightarrow> val \<Rightarrow> val" where
  "qq a b = (if nullish a then b else a)"

definition orelse :: "rat option \<Rightarrow> rat option \<Rightarrow> rat option" where
  "orelse a b = (case a of Some x \<Rightarrow> Some x | None \<Rightarrow> b)"

definition to_val :: "rat option \<Rightarrow> val" where
  "to_val a = (case a of Some x \<Rightarrow> VNum (Fin x) | None \<Rightarrow> VNull)"

text \<open>\<^verbatim>\<open>!v\<close> is true of the falsy values: undefined, null, false, 0, NaN and the empty string.\<close>

fun truthy :: "val \<Rightarrow> bool" where
  "truthy VUndef = False"
| "truthy VNull = False"
| "truthy (VBool b) = b"
| "truthy (VNum n) = (case n of Fin q \<Rightarrow> q \<noteq> 0 | NaN \<Rightarrow> False | _ \<Rightarrow> True)"
| "truthy (VStr s) = (s \<noteq> [])"
| "truthy (VArr xs) = True"
| "truthy (VObj kvs) = True"

text \<open>\<^verbatim>\<open>o[k]\<close> for a non-null \<open>o\<close>: an own property of an object, \<^verbatim>\<open>undefined\<close> otherwise.\<close>

fun get_prop :: "val \<Rightarrow> string \<Rightarrow> val" where
  "get_prop (VObj kvs) k = (case map_of kvs k of Some v \<Rightarrow> v | None \<Rightarrow> VUndef)"
| "get_prop _ k = VUndef"

section \<open>Strings\<close>

definition upper_letters :: string where
  "upper_letters = ''ABCDEFGHIJKLMNOPQRSTUVWXYZ''"

definition lower_letters :: string where
  "lower_letters = ''abcdefghijklmnopqrstuvwxyz''"

definition digit_chars :: string where
  "digit_chars = ''0123456789''"

text \<open>The capital letters of the Latin-1 range and their small forms.\<close>

definition latin1_upper :: string where
  "latin1_upper =
     [CHR 0xC0, CHR 0xC1, CHR 0xC2, CHR 0xC3, CHR 0xC4, CHR 0xC5, CHR 0xC6, CHR 0xC7,
      CHR 0xC8, CHR 0xC9, CHR 0xCA, CHR 0xCB, CHR 0xCC, CHR 0xCD, CHR 0xCE, CHR 0xCF,
      CHR 0xD0, CHR 0xD1, CHR 0xD2, CHR 0xD3, CHR 0xD4, CHR 0xD5, CHR 0xD6, CHR 0xD8,
      CHR 0xD9, CHR 0xDA, CHR 0xDB, CHR 0xDC, CHR 0xDD, CHR 0xDE]"

definition latin1_lower :: string where
  "latin1_lower =
     [CHR 0xE0, CHR 0xE1, CHR 0xE2, CHR 0xE3, CHR 0xE4, CHR 0xE5, CHR 0xE6, CHR 0xE7,
      CHR 0xE8, CHR 0xE9, CHR 0xEA, CHR 0xEB, CHR 0xEC, CHR 0xED, CHR 0xEE, CHR 0xEF,
      CHR 0xF0, CHR 0xF1, CHR 0xF2, CHR 0xF3, CHR 0xF4, CHR 0xF5, CHR 0xF6, CHR 0xF8,
      CHR 0xF9, CHR 0xFA, CHR 0xFB, CHR 0xFC, CHR 0xFD, CHR 0xFE]"

definition lower_ch :: "char \<Rightarrow> char" where
  "lower_ch c =
     (case map_of (zip (upper_letters @ latin1_upper) (lower_letters @ latin1_lower)) c of
        Some d \<Rightarrow> d
      | None \<Rightarrow> c)"

text \<open>The capital form of an ASCII letter, for the letters of a pattern under the \<^verbatim>\<open>i\<close> flag.\<close>

definition upper_ch :: "char \<Rightarrow> char" where
  "upper_ch c = (case map_of (zip lower_letters upper_letters) c of Some d \<Rightarrow> d | None \<Rightarrow> c)"

text \<open>\<^verbatim>\<open>s.toLowerCase()\<close>\<close>

definition toLowerCase :: "string \<Rightarrow> string" where
  "toLowerCase s = map lower_ch s"

text \<open>The classes \<^verbatim>\<open>\w\<close>, \<^verbatim>\<open>\s\<close> and \<^verbatim>\<open>\d\<close> of a regular expression.\<close>

definition word_chars :: string where
  "word_chars = upper_letters @ lower_letters @ digit_chars @ ''_''"

definition space_chars :: string where
  "space_chars = [CHR 0x09, CHR 0x0A, CHR 0x0B, CHR 0x0C, CHR 0x0D, CHR 0x20, CHR 0xA0]"

text \<open>\<^verbatim>\<open>s.split(".")\<close>.\<close>

fun split_on :: "char \<Rightarrow> string \<Rightarrow> string list" where
  "split_on d [] = []"
| "split_on d (c # cs) =
     (if c = d then [] # split_on d cs
      else (case split_on d cs of w # ws \<Rightarrow> (c # w) # ws | [] \<Rightarrow> [c # []]))"

text \<open>Decimal digits of a natural number, and the value of a digit string.\<close>

fun nat_digits :: "nat \<Rightarrow> string" where
  "nat_digits n = (if n < 10 then [digit_chars ! n] else nat_digits (n div 10) @ [digit_chars ! (n mod 10)])"

definition digit_val :: "char \<Rightarrow> nat" where
  "digit_val c = (case map_of (zip digit_chars [0 ..< 10]) c of Some d \<Rightarrow> d | None \<Rightarrow> 0)"

definition digits_val :: "string \<Rightarrow> nat" where
  "digits_val s = foldl (\<lambda>a c. 10 * a + digit_val c) 0 s"

primrec frac_digits :: "nat \<Rightarrow> rat \<Rightarrow> string" where
  "frac_digits 0 f = []"
| "frac_digits (Suc k) f =
     (if f = 0 then []
      else (let d = nat \<lfloor>f * 10\<rfloor> in (digit_chars ! d) # frac_digits k (f * 10 - of_nat d)))"

text \<open>
  \<^verbatim>\<open>String(v)\<close>. A finite number prints as its decimal expansion (at most 20 fractional
  digits); JavaScript prints the shortest decimal that reads back as the same double, and
  switches to exponent notation outside \<open>[1e-6, 1e21)\<close>, which an exact rational cannot
  reproduce. No result below depends on the digits printed for a number.
\<close>

definition num_string :: "jsnum \<Rightarrow> string" where
  "num_string n =
     (case n of
        NaN \<Rightarrow> ''NaN''
      | PosInf \<Rightarrow> ''Infinity''
      | NegInf \<Rightarrow> ''-Infinity''
      | Fin q \<Rightarrow>
          (let a = \<bar>q\<bar>; i = nat \<lfloor>a\<rfloor>; f = a - of_nat i
           in (if q < 0 then ''-'' else '''') @ nat_digits i
              @ (if f = 0 then '''' else ''.'' @ frac_digits 20 f)))"

fun join_with :: "string \<Rightarrow> string list \<Rightarrow> string" where
  "join_with sep [] = []"
| "join_with sep [x] = x"
| "join_with sep (x # y # ys) = x @ sep @ join_with sep (y # ys)"

fun js_String :: "val \<Rightarrow> string"
  and join_elem :: "val \<Rightarrow> string" where
  "js_String VUndef = ''undefined''"
| "js_String VNull = ''null''"
| "js_String (VBool b) = (if b then ''true'' else ''false'')"
| "js_String (VNum n) = num_string n"
| "js_String (VStr s) = s"
| "js_String (VArr xs) = join_with '','' (map join_elem xs)"
| "js_String (VObj kvs) = ''[object Object]''"
| "join_elem v = (if nullish v then [] else js_String v)"

text \<open>\<^verbatim>\<open>xs.join(sep)\<close>: a null or undefined element prints as the empty string.\<close>

definition array_join :: "string \<Rightarrow> val list \<Rightarrow> string" where
  "array_join sep xs = join_with sep (map join_elem xs)"

section \<open>Regular expressions\<close>

text \<open>
  The patterns of the source are written in this datatype and run by a backtracking
  matcher that returns the matches in the priority order of the ECMAScript semantics:
  alternatives left to right, quantifiers greedy. \<open>Cls\<close> and \<open>NCls\<close> are a character class
  and its complement, \<open>Cap\<close> is capture group 1, \<open>WB\<close> is \<^verbatim>\<open>\b\<close>. A matcher state is the
  character before the position, the rest of the input and the text of group 1.
\<close>

datatype re = Cls string | NCls string | Eps | Seq re re | Alt re re | Star re | Cap re | WB

type_synonym mstate = "char option \<times> string \<times> string option"

text \<open>
  The iteration of a star: an iteration that consumes nothing is rejected, so the
  length of the input bounds the number of iterations.
\<close>

primrec iter :: "nat \<Rightarrow> (mstate \<Rightarrow> mstate list) \<Rightarrow> mstate \<Rightarrow> mstate list" where
  "iter 0 f st = [st]"
| "iter (Suc n) f st =
     concat (map (iter n f)
       (filter (\<lambda>st'. length (fst (snd st')) < length (fst (snd st))) (f st))) @ [st]"

definition at_boundary :: "char option \<Rightarrow> string \<Rightarrow> bool" where
  "at_boundary p s \<longleftrightarrow>
     (case p of None \<Rightarrow> False | Some c \<Rightarrow> c \<in> set word_chars)
       \<noteq> (case s of [] \<Rightarrow> False | c # _ \<Rightarrow> c \<in> set word_chars)"

fun rmatch :: "re \<Rightarrow> mstate \<Rightarrow> mstate list" where
  "rmatch (Cls cs) (p, s, g) =
     (case s of [] \<Rightarrow> [] | c # s' \<Rightarrow> if c \<in> set cs then [(Some c, s', g)] else [])"
| "rmatch (NCls cs) (p, s, g) =
     (case s of [] \<Rightarrow> [] | c # s' \<Rightarrow> if c \<notin> set cs then [(Some c, s', g)] else [])"
| "rmatch Eps st = [st]"
| "rmatch (Seq a b) st = concat (map (rmatch b) (rmatch a st))"
| "rmatch (Alt a b) st = rmatch a st @ rmatch b st"
| "rmatch (Star a) st = iter (length (fst (snd st))) (\<lambda>st'. rmatch a st') st"
| "rmatch (Cap a) (p, s, g) =
     map (\<lambda>(p', s', g'). (p', s', Some (take (length s - length s') s))) (rmatch a (p, s, g))"
| "rmatch WB (p, s, g) = (if at_boundary p s then [(p, s, g)] else [])"

text \<open>
  \<^verbatim>\<open>s.match(r)\<close> without the global flag: the first match at the leftmost position where one
  exists, as the matched text \<^verbatim>\<open>m[0]\<close> and group 1 \<^verbatim>\<open>m[1]\<close>; \<open>None\<close> is \<^verbatim>\<open>null\<close>.
\<close>

fun rsearch :: "re \<Rightarrow> char option \<Rightarrow> string \<Rightarrow> (string \<times> string option) option" where
  "rsearch r p s =
     (case rmatch r (p, s, None) of
        (p', s', g) # _ \<Rightarrow> Some (take (length s - length s') s, g)
      | [] \<Rightarrow> (case s of [] \<Rightarrow> None | c # s'' \<Rightarrow> rsearch r (Some c) s''))"

definition js_match :: "string \<Rightarrow> re \<Rightarrow> (string \<times> string option) option" where
  "js_match s r = rsearch r None s"

text \<open>\<^verbatim>\<open>s.match(a) || s.match(b)\<close>.\<close>

definition or_match ::
  "(string \<times> string option) option \<Rightarrow> (string \<times> string option) option \<Rightarrow> (string \<times> string option) option" where
  "or_match a b = (case a of Some m \<Rightarrow> Some m | None \<Rightarrow> b)"

text \<open>Pattern syntax: \<^verbatim>\<open>r?\<close>, \<^verbatim>\<open>r+\<close>, a character, a word under the \<^verbatim>\<open>i\<close> flag, a sequence.\<close>

definition Opt :: "re \<Rightarrow> re" where
  "Opt r = Alt r Eps"

definition Plus :: "re \<Rightarrow> re" where
  "Plus r = Seq r (Star r)"

definition Chr :: "char \<Rightarrow> re" where
  "Chr c = Cls [c]"

definition seqs :: "re list \<Rightarrow> re" where
  "seqs rs = foldr Seq rs Eps"

definition lit_i :: "string \<Rightarrow> re" where
  "lit_i s = seqs (map (\<lambda>c. Cls [lower_ch c, upper_ch c]) s)"

definition Digit :: re where
  "Digit = Cls digit_chars"

definition Space :: re where
  "Space = Cls space_chars"

text \<open>\<^verbatim>\<open>[0-9.]\<close>, \<^verbatim>\<open>[:\s]\<close>, \<^verbatim>\<open>[-\s]\<close> and \<^verbatim>\<open>\W\<close>.\<close>

definition DigitDot :: re where
  "DigitDot = Cls (digit_chars @ ''.'')"

definition ColonSpace :: re where
  "ColonSpace = Cls ('':'' @ space_chars)"

definition DashSpace :: re where
  "DashSpace = Cls (''-'' @ space_chars)"

definition NonWord :: re where
  "NonWord = NCls word_chars"

section \<open>The numeric coercer and the unit normalizers\<close>

text \<open>\<^verbatim>\<open>/-?\d+(\.\d+)?/\<close>\<close>

definition re_num :: re where
  "re_num = seqs [Opt (Chr CHR ''-''), Plus Digit, Opt (seqs [Chr CHR ''.'', Plus Digit])]"

text \<open>
  \<^verbatim>\<open>parseFloat\<close> on an optional minus sign, digits and an optional fraction, the only shape
  its one caller passes (a match of \<open>re_num\<close>); without a leading digit the result is NaN.
\<close>

definition parseFloat :: "string \<Rightarrow> jsnum" where
  "parseFloat s =
     (let neg = (case s of c # _ \<Rightarrow> c = CHR ''-'' | [] \<Rightarrow> False);
          s1 = (if neg then tl s else s);
          ip = takeWhile (\<lambda>c. c \<in> set digit_chars) s1;
          r1 = dropWhile (\<lambda>c. c \<in> set digit_chars) s1;
          fp = (case r1 of c # t \<Rightarrow> if c = CHR ''.'' then takeWhile (\<lambda>c. c \<in> set digit_chars) t else []
                | [] \<Rightarrow> []);
          v = of_nat (digits_val ip) + of_nat (digits_val fp) / 10 ^ length fp
      in if ip = [] then NaN else Fin (if neg then - v else v))"

text \<open>\<^verbatim>\<open>Number.isFinite(n) ? n : null\<close>\<close>

definition finite_or_null :: "jsnum \<Rightarrow> rat option" where
  "finite_or_null n = (case n of Fin q \<Rightarrow> Some q | _ \<Rightarrow> None)"

fun num :: "val \<Rightarrow> rat option" where
  "num VUndef = None"
| "num VNull = None"
| "num (VNum n) = finite_or_null n"
| "num (VStr s) =
     (case js_match s re_num of
        None \<Rightarrow> None
      | Some m \<Rightarrow> finite_or_null (parseFloat (fst m)))"
| "num _ = None"

text \<open>\<^verbatim>\<open>Math.round\<close>: the nearest integer, a tie going towards plus infinity.\<close>

definition math_round :: "rat \<Rightarrow> rat" where
  "math_round x = of_int \<lfloor>x + 1 / 2\<rfloor>"

definition pct :: "val \<Rightarrow> rat option" where
  "pct v =
     (case num v of
        None \<Rightarrow> None
      | Some n \<Rightarrow> (let p = (if n \<le> 1 then n * 100 else n) in Some (math_round (p * 10) / 10)))"

definition rat :: "val \<Rightarrow> rat option" where
  "rat v =
     (case num v of
        None \<Rightarrow> None
      | Some n \<Rightarrow> Some (math_round (n * 1000) / 1000))"

definition sumNN :: "rat option \<Rightarrow> rat option \<Rightarrow> rat option" where
  "sumNN a b = (case a of None \<Rightarrow> None | Some x \<Rightarrow> (case b of None \<Rightarrow> None | Some y \<Rightarrow> Some (x + y)))"


section \<open>The path picker\<close>

text \<open>
  \<^verbatim>\<open>pick(obj, paths)\<close>: each path is split at the dots and followed from \<open>obj\<close>; a
  null or undefined intermediate value makes the rest of the path undefined. The first
  path with a non-null value wins.
\<close>

definition follow_path :: "val \<Rightarrow> string \<Rightarrow> val" where
  "follow_path obj p = foldl (\<lambda>ob k. if nullish ob then VUndef else get_prop ob k) obj (split_on CHR ''.'' p)"

fun pick :: "val \<Rightarrow> string list \<Rightarrow> val" where
  "pick obj [] = VUndef"
| "pick obj (p # ps) = (let v = follow_path obj p in if \<not> nullish v then v else pick obj ps)"

section \<open>The side-table row and its alias lookup\<close>

text \<open>
  A side-table row is a mutable object: the list of its own properties, each with its
  value and its enumerable flag. The properties of a row that arrives are plain data
  properties (configurable, as assignment and \<^verbatim>\<open>JSON.parse\<close> create them). \<open>None\<close> stands
  for a missing row, which \<open>getCSV\<close> answers with \<^verbatim>\<open>undefined\<close>.
\<close>

type_synonym srow = "(string \<times> val \<times> bool) list"

text \<open>\<^verbatim>\<open>csv[k]\<close>, \<^verbatim>\<open>Object.entries(csv)\<close> and \<^verbatim>\<open>Object.keys(csv)\<close>.\<close>

definition own_prop :: "srow \<Rightarrow> string \<Rightarrow> val" where
  "own_prop ps k = (case map_of ps k of Some (v, e) \<Rightarrow> v | None \<Rightarrow> VUndef)"

definition object_entries :: "srow \<Rightarrow> (string \<times> val) list" where
  "object_entries ps = map (\<lambda>(k, v, e). (k, v)) (filter (\<lambda>(k, v, e). e) ps)"

definition object_keys :: "srow \<Rightarrow> string list" where
  "object_keys ps = map fst (object_entries ps)"

text \<open>
  \<^verbatim>\<open>Object.defineProperty(o, k, { value: v, enumerable: false })\<close>: a new property is added
  at the end, hidden from enumeration; an existing configurable property takes the new
  value and the new flag in place.
\<close>

definition define_hidden :: "srow \<Rightarrow> string \<Rightarrow> val \<Rightarrow> srow" where
  "define_hidden ps k v =
     (if k \<in> set (map fst ps)
      then map (\<lambda>(k', v', e'). if k' = k then (k', v, False) else (k', v', e')) ps
      else ps @ [(k, v, False)])"

text \<open>\<^verbatim>\<open>idx[k] = v\<close> on the index object under construction.\<close>

fun assign :: "(string \<times> val) list \<Rightarrow> string \<Rightarrow> val \<Rightarrow> (string \<times> val) list" where
  "assign [] k v = [(k, v)]"
| "assign ((k', v') # kvs) k v = (if k' = k then (k', v) # kvs else (k', v') # assign kvs k v)"

text \<open>\<^verbatim>\<open>norm\<close>: lower case, then every character outside \<^verbatim>\<open>[a-z0-9]\<close> removed.\<close>

definition norm :: "string \<Rightarrow> string" where
  "norm s = filter (\<lambda>c. c \<in> set (lower_letters @ digit_chars)) (toLowerCase s)"

definition build_index :: "srow \<Rightarrow> val" where
  "build_index ps = VObj (foldl (\<lambda>idx (k, v). assign idx (norm k) v) [] (object_entries ps))"

fun first_alias :: "val \<Rightarrow> string list \<Rightarrow> val" where
  "first_alias idx [] = VUndef"
| "first_alias idx (a # as) = (let v = get_prop idx (norm a) in if \<not> nullish v then v else first_alias idx as)"

text \<open>
  \<open>getCSV\<close> returns the value found and the row as the call leaves it: the first call
  stores the index in the property \<^verbatim>\<open>__normIndex\<close> of the row.
\<close>

fun getCSV :: "srow option \<Rightarrow> string list \<Rightarrow> val \<times> srow option" where
  "getCSV None aliases = (VUndef, None)"
| "getCSV (Some ps) aliases =
     (let ps' = (if \<not> truthy (own_prop ps ''__normIndex'')
                 then define_hidden ps ''__normIndex'' (build_index ps)
                 else ps);
          idx = own_prop ps' ''__normIndex''
      in (first_alias idx aliases, Some ps'))"

text \<open>
  The row builder reads a side-table row only through \<open>getCSV\<close>, and a lookup returns
  the same value whether or not earlier lookups have run (lemma \<open>getCSV_after\<close> below),
  so the builder is written over the value of the lookup.
\<close>

definition csv_get :: "srow option \<Rightarrow> string list \<Rightarrow> val" where
  "csv_get csv aliases = fst (getCSV csv aliases)"

section \<open>The narrative extractor\<close>

definition re_games :: re where
  "re_games = seqs [WB, lit_i ''over'', Plus Space, Cap (Plus Digit), Plus Space,
                    Opt (seqs [lit_i ''rated'', Plus Space]), lit_i ''games'', WB]"

definition re_elo1 :: re where
  "re_elo1 = seqs [WB, lit_i ''elo'', Star Space, lit_i ''ratio'', Star ColonSpace, Cap (Plus DigitDot)]"

definition re_elo2 :: re where
  "re_elo2 = seqs [WB, lit_i ''elo'', Star Space, lit_i ''ratio'', Plus NonWord, Cap (Plus DigitDot)]"

definition re_elo3 :: re where
  "re_elo3 = seqs [WB, lit_i ''EloRatio'', Star Space, Cap (Plus DigitDot)]"

definition re_tElo1 :: re where
  "re_tElo1 = seqs [WB, seqs [lit_i ''tourn'', Opt (lit_i ''ament'')], Plus Space, lit_i ''elo'',
                    Star Space, lit_i ''ratio'', Star ColonSpace, Cap (Plus DigitDot)]"

definition re_tElo2 :: re where
  "re_tElo2 = seqs [WB, lit_i ''Tourn'', Star Space, lit_i ''EloRatio'', Star Space, Cap (Plus DigitDot)]"

definition re_ntElo :: re where
  "re_ntElo = seqs [WB, lit_i ''non'', Opt DashSpace, lit_i ''tourn'', Opt (lit_i ''ament''), Plus Space,
                    Opt (seqs [lit_i ''elo'', Star Space]), lit_i ''ratio'', Star ColonSpace,
                    Cap (Plus DigitDot)]"

definition re_gap :: re where
  "re_gap = seqs [Chr CHR ''('', lit_i ''gap'', Star Space, Cap (Plus DigitDot), Star Space, Chr CHR '')'']"

definition re_ntSelfBail1 :: re where
  "re_ntSelfBail1 = seqs [WB, lit_i ''non'', Opt DashSpace, lit_i ''tournament'', Plus Space,
                          lit_i ''self-bail'', Plus Space, lit_i ''losses'', Plus Space,
                          Cap (Plus DigitDot), Chr CHR ''%'']"

definition re_ntSelfBail2 :: re where
  "re_ntSelfBail2 = seqs [WB, lit_i ''NT'', Plus Space, lit_i ''self-bail'', Plus Space, lit_i ''loss'',
                          Opt (lit_i ''es''), Plus Space, Cap (Plus DigitDot), Chr CHR ''%'']"

definition re_upsets :: re where
  "re_upsets = seqs [WB, Cap (Plus Digit), Plus Space, lit_i ''upset'', Plus Space, lit_i ''win'',
                     Opt (lit_i ''s''), WB]"

text \<open>\<^verbatim>\<open>m ? f(m[1]) : null\<close>\<close>

definition group1 :: "string \<times> string option \<Rightarrow> val" where
  "group1 m = (case snd m of Some t \<Rightarrow> VStr t | None \<Rightarrow> VUndef)"

definition on_match :: "(val \<Rightarrow> rat option) \<Rightarrow> (string \<times> string option) option \<Rightarrow> rat option" where
  "on_match f m = (case m of Some x \<Rightarrow> f (group1 x) | None \<Rightarrow> None)"

record parsed =
  p_games :: "rat option"
  p_elo :: "rat option"
  p_tElo :: "rat option"
  p_ntElo :: "rat option"
  p_gap :: "rat option"
  p_ntSelfBail :: "rat option"
  p_upsets :: "rat option"

definition parseFromReasons :: "val \<Rightarrow> parsed" where
  "parseFromReasons reasons =
     (let R = js_String (qq reasons (VStr ''''))
      in \<lparr> p_games = on_match num (js_match R re_games),
           p_elo = on_match rat (or_match (or_match (js_match R re_elo1) (js_match R re_elo2)) (js_match R re_elo3)),
           p_tElo = on_match rat (or_match (js_match R re_tElo1) (js_match R re_tElo2)),
           p_ntElo = on_match rat (js_match R re_ntElo),
           p_gap = on_match rat (js_match R re_gap),
           p_ntSelfBail = on_match pct (or_match (js_match R re_ntSelfBail1) (js_match R re_ntSelfBail2)),
           p_upsets = on_match num (js_match R re_upsets) \<rparr>)"

section \<open>The alias bundles\<close>

text \<open>
  The header spellings of each canonical field, in the order of the source. Two of them
  hold a character outside the 8-bit range (a Greek capital delta in \<^verbatim>\<open>wrGap\<close> and
  \<^verbatim>\<open>eloRatioGap\<close>, a minus sign in \<^verbatim>\<open>wrGap\<close>); it is written \<^verbatim>\<open>?\<close> here, and \<open>norm\<close> removes
  it either way.
\<close>

definition A_suspicion :: "string list" where
  "A_suspicion = [''suspicion_score'', ''suspicion'', ''score'']"

definition A_recentGames :: "string list" where
  "A_recentGames = [''recent_games'', ''recent games'', ''games'', ''lifetime_games'', ''lifetime games'']"

definition A_recentWins :: "string list" where
  "A_recentWins = [''recent_wins'', ''recent wins'', ''wins'']"

definition A_recentDraws :: "string list" where
  "A_recentDraws = [''recent_draws'', ''recent draws'', ''draws'']"

definition A_recentLosses :: "string list" where
  "A_recentLosses = [''recent_losses'', ''recent losses'', ''losses'']"

definition A_streak :: "string list" where
  "A_streak = [''win_streak'', ''streak'', ''stk'']"

definition A_maxStreak :: "string list" where
  "A_maxStreak = [''max_win_streak'', ''max streak'', ''maxstk'', ''max win streak'']"

definition A_upsetWins :: "string list" where
  "A_upsetWins = [''upset_wins'', ''upsets'', ''upset'']"

definition A_shortWinRate :: "string list" where
  "A_shortWinRate = [''short_win_rate'', ''short win rate'', ''shortw%'', ''short_win%'', ''shortwin%'']"

definition A_timeoutWinRatio :: "string list" where
  "A_timeoutWinRatio = [''timeout_win_ratio'', ''timeout win ratio'', ''to/res%'', ''timeout%'']"

definition A_tGames :: "string list" where
  "A_tGames = [''t_games'', ''t games'', ''tournament_games'', ''tournament games'']"

definition A_tWins :: "string list" where
  "A_tWins = [''t_wins'', ''t wins'', ''tournament_wins'', ''tournament wins'', ''tw'']"

definition A_tDraws :: "string list" where
  "A_tDraws = [''t_draws'', ''t draws'', ''tournament_draws'', ''tournament draws'', ''td'']"

definition A_tLosses :: "string list" where
  "A_tLosses = [''t_losses'', ''t losses'', ''tournament_losses'', ''tournament losses'', ''tl'']"

definition A_tWR :: "string list" where
  "A_tWR = [''tourn_win_rate'', ''tournament win rate'', ''twr'', ''twr%'']"

definition A_ntGames :: "string list" where
  "A_ntGames = [''nt_games'', ''nt games'', ''non_tourn_games'', ''non tournament games'', ''non_tournament_games'']"

definition A_ntWins :: "string list" where
  "A_ntWins = [''nt_wins'', ''nt wins'', ''non_tourn_wins'', ''non tournament wins'', ''non_tournament_wins'']"

definition A_ntDraws :: "string list" where
  "A_ntDraws = [''nt_draws'', ''nt draws'', ''non_tourn_draws'', ''non tournament draws'', ''non_tournament_draws'']"

definition A_ntLosses :: "string list" where
  "A_ntLosses = [''nt_losses'', ''nt losses'', ''non_tourn_losses'', ''non tournament losses'', ''non_tournament_losses'']"

definition A_ntWR :: "string list" where
  "A_ntWR = [''non_tourn_win_rate'', ''non tournament win rate'', ''ntwr'', ''ntwr%'']"

definition A_eloGain :: "string list" where
  "A_eloGain = [''elo_gain'', ''elo gain'']"

definition A_eloLoss :: "string list" where
  "A_eloLoss = [''elo_loss'', ''elo loss'']"

definition A_eloRatio :: "string list" where
  "A_eloRatio = [''elo_ratio'', ''elo ratio'', ''elor'']"

definition A_tEloGain :: "string list" where
  "A_tEloGain = [''tourn_elo_gain'', ''t elo gain'', ''t_elo_gain'']"

definition A_tEloLoss :: "string list" where
  "A_tEloLoss = [''tourn_elo_loss'', ''t elo loss'', ''t_elo_loss'']"

definition A_tEloRatio :: "string list" where
  "A_tEloRatio = [''tourn_elo_ratio'', ''t elo ratio'', ''t_elo_ratio'', ''telor'', ''t elor'', ''t eloratio'']"

definition A_ntEloGain :: "string list" where
  "A_ntEloGain = [''non_tourn_elo_gain'', ''nt elo gain'', ''nt_elo_gain'']"

definition A_ntEloLoss :: "string list" where
  "A_ntEloLoss = [''non_tourn_elo_loss'', ''nt elo loss'', ''nt_elo_loss'']"

definition A_ntEloRatio :: "string list" where
  "A_ntEloRatio = [''non_tourn_elo_ratio'', ''nt elo ratio'', ''nt_elo_ratio'', ''ntelor'']"

definition A_wrGap :: "string list" where
  "A_wrGap = [''wr_gap'', ''wr gap'', ''?wr'', ''wr gap (t ? nt)'', ''wr gap (t-nt)'']"

definition A_eloRatioGap :: "string list" where
  "A_eloRatioGap = [''elo_ratio_gap'', ''elo ratio gap'', ''?elor'']"

definition A_tSelfBail :: "string list" where
  "A_tSelfBail = [''t_self_bail_loss_ratio'', ''t-selfto%'']"

definition A_ntSelfBail :: "string list" where
  "A_ntSelfBail = [''nt_self_bail_loss_ratio'', ''nt-selfto%'']"

definition A_reasons :: "string list" where
  "A_reasons = [''reasons'']"

section \<open>The row reconciler\<close>

text \<open>
  One entry of \<^verbatim>\<open>finishedRows\<close>, and the local constants of the callback that builds its
  row, each as a function of the structured source \<open>r\<close> (\<^verbatim>\<open>row.result ?? {}\<close>) and the
  side-table row \<open>csv\<close>. A local that the source assigns a second time (\<^verbatim>\<open>tWR\<close>, \<^verbatim>\<open>ntWR\<close>,
  the four recent totals) has its first value under the name that ends in \<open>0\<close>.
\<close>

record finrow =
  username :: string
  result :: val

definition reasonsStr :: "val \<Rightarrow> srow option \<Rightarrow> val" where
  "reasonsStr r csv =
     (case get_prop r ''reasons'' of
        VArr xs \<Rightarrow> VStr (array_join ''; '' xs)
      | VStr s \<Rightarrow> VStr s
      | _ \<Rightarrow> qq (csv_get csv A_reasons) (VStr ''''))"

definition parsed_of :: "val \<Rightarrow> srow option \<Rightarrow> parsed" where
  "parsed_of r csv = parseFromReasons (reasonsStr r csv)"

definition suspicion_score :: "val \<Rightarrow> srow option \<Rightarrow> val" where
  "suspicion_score r csv =
     qq (qq (pick r [''suspicion_score'', ''suspicion.score'']) (to_val (num (csv_get csv A_suspicion)))) VNull"

definition t_games :: "val \<Rightarrow> srow option \<Rightarrow> rat option" where
  "t_games r csv =
     orelse (orelse (num (pick r [''tournament.games'', ''t.games'', ''tourn.games''])) (num (csv_get csv A_tGames))) None"

definition t_wins :: "val \<Rightarrow> srow option \<Rightarrow> rat option" where
  "t_wins r csv =
     orelse (orelse (num (pick r [''tournament.wins'', ''t.wins'', ''tourn.wins''])) (num (csv_get csv A_tWins))) None"

definition t_draws :: "val \<Rightarrow> srow option \<Rightarrow> rat option" where
  "t_draws r csv =
     orelse (orelse (num (pick r [''tournament.draws'', ''t.draws'', ''tourn.draws''])) (num (csv_get csv A_tDraws))) None"

definition t_losses :: "val \<Rightarrow> srow option \<Rightarrow> rat option" where
  "t_losses r csv =
     orelse (orelse (num (pick r [''tournament.losses'', ''t.losses'', ''tourn.losses''])) (num (csv_get csv A_tLosses))) None"

definition tWR0 :: "val \<Rightarrow> srow option \<Rightarrow> rat option" where
  "tWR0 r csv =
     orelse (pct (pick r [''tournament.win_rate'', ''t.win_rate''])) (pct (csv_get csv A_tWR))"

definition nt_games :: "val \<Rightarrow> srow option \<Rightarrow> rat option" where
  "nt_games r csv =
     orelse (orelse (num (pick r [''non_tournament.games'', ''nt.games''])) (num (csv_get csv A_ntGames))) None"

definition nt_wins :: "val \<Rightarrow> srow option \<Rightarrow> rat option" where
  "nt_wins r csv =
     orelse (orelse (num (pick r [''non_tournament.wins'', ''nt.wins''])) (num (csv_get csv A_ntWins))) None"

definition nt_draws :: "val \<Rightarrow> srow option \<Rightarrow> rat option" where
  "nt_draws r csv =
     orelse (orelse (num (pick r [''non_tournament.draws'', ''nt.draws''])) (num (csv_get csv A_ntDraws))) None"

definition nt_losses :: "val \<Rightarrow> srow option \<Rightarrow> rat option" where
  "nt_losses r csv =
     orelse (orelse (num (pick r [''non_tournament.losses'', ''nt.losses''])) (num (csv_get csv A_ntLosses))) None"

definition ntWR0 :: "val \<Rightarrow> srow option \<Rightarrow> rat option" where
  "ntWR0 r csv =
     orelse (pct (pick r [''non_tournament.win_rate'', ''nt.win_rate''])) (pct (csv_get csv A_ntWR))"

definition recent_games0 :: "val \<Rightarrow> srow option \<Rightarrow> rat option" where
  "recent_games0 r csv =
     orelse (orelse (num (pick r [''totals.games'', ''lifetime_games'', ''recent.games'', ''games''])) (num (csv_get csv A_recentGames))) (p_games (parsed_of r csv))"

definition recent_wins0 :: "val \<Rightarrow> srow option \<Rightarrow> rat option" where
  "recent_wins0 r csv =
     orelse (num (pick r [''totals.wins'', ''wins''])) (num (csv_get csv A_recentWins))"

definition recent_draws0 :: "val \<Rightarrow> srow option \<Rightarrow> rat option" where
  "recent_draws0 r csv =
     orelse (num (pick r [''totals.draws'', ''draws''])) (num (csv_get csv A_recentDraws))"

definition recent_losses0 :: "val \<Rightarrow> srow option \<Rightarrow> rat option" where
  "recent_losses0 r csv =
     orelse (num (pick r [''totals.losses'', ''losses''])) (num (csv_get csv A_recentLosses))"

text \<open>\<^verbatim>\<open>recent_games ??= sumNN(t_games, nt_games)\<close> and its three siblings.\<close>

definition recent_games :: "val \<Rightarrow> srow option \<Rightarrow> rat option" where
  "recent_games r csv = orelse (recent_games0 r csv) (sumNN (t_games r csv) (nt_games r csv))"

definition recent_wins :: "val \<Rightarrow> srow option \<Rightarrow> rat option" where
  "recent_wins r csv = orelse (recent_wins0 r csv) (sumNN (t_wins r csv) (nt_wins r csv))"

definition recent_draws :: "val \<Rightarrow> srow option \<Rightarrow> rat option" where
  "recent_draws r csv = orelse (recent_draws0 r csv) (sumNN (t_draws r csv) (nt_draws r csv))"

definition recent_losses :: "val \<Rightarrow> srow option \<Rightarrow> rat option" where
  "recent_losses r csv = orelse (recent_losses0 r csv) (sumNN (t_losses r csv) (nt_losses r csv))"

text \<open>
  \<^verbatim>\<open>if (tWR == null && t_wins != null && t_games && t_games > 0) tWR = ...\<close>: the rate from
  the counts. \<^verbatim>\<open>t_games && t_games > 0\<close> needs a number that is not zero and is positive.
\<close>

definition rate_from_counts :: "rat option \<Rightarrow> rat option \<Rightarrow> rat option \<Rightarrow> rat option" where
  "rate_from_counts wr wins games =
     (case (wr, wins, games) of
        (None, Some w, Some g) \<Rightarrow> if g \<noteq> 0 \<and> g > 0 then Some (math_round (((w / g) * 100) * 10) / 10) else wr
      | _ \<Rightarrow> wr)"

definition tWR :: "val \<Rightarrow> srow option \<Rightarrow> rat option" where
  "tWR r csv = rate_from_counts (tWR0 r csv) (t_wins r csv) (t_games r csv)"

definition ntWR :: "val \<Rightarrow> srow option \<Rightarrow> rat option" where
  "ntWR r csv = rate_from_counts (ntWR0 r csv) (nt_wins r csv) (nt_games r csv)"

definition win_streak :: "val \<Rightarrow> srow option \<Rightarrow> val" where
  "win_streak r csv = qq (qq (csv_get csv A_streak) (pick r [''streak''])) VNull"

definition max_win_streak :: "val \<Rightarrow> srow option \<Rightarrow> val" where
  "max_win_streak r csv = qq (qq (csv_get csv A_maxStreak) (pick r [''max_streak''])) VNull"

definition upset_wins :: "val \<Rightarrow> srow option \<Rightarrow> val" where
  "upset_wins r csv =
     (let u = qq (csv_get csv A_upsetWins) (pick r [''upset_wins''])
      in if nullish u \<and> p_upsets (parsed_of r csv) \<noteq> None then to_val (p_upsets (parsed_of r csv)) else u)"

definition short_win_rate :: "val \<Rightarrow> srow option \<Rightarrow> rat option" where
  "short_win_rate r csv =
     orelse (pct (pick r [''ratios.short_win_rate'', ''short_win_rate''])) (pct (csv_get csv A_shortWinRate))"

definition timeout_win_ratio :: "val \<Rightarrow> srow option \<Rightarrow> rat option" where
  "timeout_win_ratio r csv =
     orelse (pct (pick r [''ratios.timeout_win_ratio'', ''timeout_win_ratio''])) (pct (csv_get csv A_timeoutWinRatio))"

definition elo_gain :: "val \<Rightarrow> srow option \<Rightarrow> rat option" where
  "elo_gain r csv =
     orelse (orelse (num (pick r [''totals.elo.gain'', ''elo.gain''])) (num (csv_get csv A_eloGain))) None"

definition elo_loss :: "val \<Rightarrow> srow option \<Rightarrow> rat option" where
  "elo_loss r csv =
     orelse (orelse (num (pick r [''totals.elo.loss'', ''elo.loss''])) (num (csv_get csv A_eloLoss))) None"

definition elo_ratio :: "val \<Rightarrow> srow option \<Rightarrow> rat option" where
  "elo_ratio r csv =
     orelse (orelse (orelse (rat (pick r [''totals.elo.ratio'', ''elo.ratio''])) (rat (csv_get csv A_eloRatio))) (p_elo (parsed_of r csv))) None"

definition t_elo_gain :: "val \<Rightarrow> srow option \<Rightarrow> rat option" where
  "t_elo_gain r csv =
     orelse (orelse (num (pick r [''tournament.elo.gain'', ''t.elo.gain''])) (num (csv_get csv A_tEloGain))) None"

definition t_elo_loss :: "val \<Rightarrow> srow option \<Rightarrow> rat option" where
  "t_elo_loss r csv =
     orelse (orelse (num (pick r [''tournament.elo.loss'', ''t.elo.loss''])) (num (csv_get csv A_tEloLoss))) None"

definition t_elo_ratio :: "val \<Rightarrow> srow option \<Rightarrow> rat option" where
  "t_elo_ratio r csv =
     orelse (orelse (orelse (rat (pick r [''tournament.elo.ratio'', ''t.elo.ratio''])) (rat (csv_get csv A_tEloRatio))) (p_tElo (parsed_of r csv))) None"

definition nt_elo_gain :: "val \<Rightarrow> srow option \<Rightarrow> rat option" where
  "nt_elo_gain r csv =
     orelse (orelse (num (pick r [''non_tournament.elo.gain'', ''nt.elo.gain''])) (num (csv_get csv A_ntEloGain))) None"

definition nt_elo_loss :: "val \<Rightarrow> srow option \<Rightarrow> rat option" where
  "nt_elo_loss r csv =
     orelse (orelse (num (pick r [''non_tournament.elo.loss'', ''nt.elo.loss''])) (num (csv_get csv A_ntEloLoss))) None"

definition nt_elo_ratio :: "val \<Rightarrow> srow option \<Rightarrow> rat option" where
  "nt_elo_ratio r csv =
     orelse (orelse (orelse (rat (pick r [''non_tournament.elo.ratio'', ''nt.elo.ratio''])) (rat (csv_get csv A_ntEloRatio))) (p_ntElo (parsed_of r csv))) None"

definition wr_gap :: "val \<Rightarrow> srow option \<Rightarrow> rat option" where
  "wr_gap r csv =
     (case (tWR r csv, ntWR r csv) of
        (Some a, Some b) \<Rightarrow> Some (math_round ((a - b) * 10) / 10)
      | _ \<Rightarrow> pct (csv_get csv A_wrGap))"

definition elo_ratio_gap :: "val \<Rightarrow> srow option \<Rightarrow> rat option" where
  "elo_ratio_gap r csv =
     (case (t_elo_ratio r csv, nt_elo_ratio r csv) of
        (Some a, Some b) \<Rightarrow> rat (VNum (Fin (a - b)))
      | _ \<Rightarrow> orelse (orelse (rat (csv_get csv A_eloRatioGap)) (p_gap (parsed_of r csv))) None)"

definition t_self_bail_loss_ratio :: "val \<Rightarrow> srow option \<Rightarrow> rat option" where
  "t_self_bail_loss_ratio r csv =
     orelse (pct (pick r [''ratios.self_bail_loss_ratio_t''])) (pct (csv_get csv A_tSelfBail))"

definition nt_self_bail_loss_ratio :: "val \<Rightarrow> srow option \<Rightarrow> rat option" where
  "nt_self_bail_loss_ratio r csv =
     orelse (orelse (orelse (pct (pick r [''ratios.self_bail_loss_ratio_nt''])) (pct (csv_get csv A_ntSelfBail))) (p_ntSelfBail (parsed_of r csv))) None"

text \<open>
  The row returned by the callback: an object, as the list of its properties in the
  order of the object literal. A coerced local is a number or \<^verbatim>\<open>null\<close>.
\<close>

type_synonym row = "(string \<times> val) list"

definition strict_row :: "finrow \<Rightarrow> (string \<rightharpoonup> srow) \<Rightarrow> row" where
  "strict_row fr csvByUser =
     (let r = qq (result fr) (VObj []);
          csv = csvByUser (toLowerCase (username fr))
      in [(''username'', VStr (username fr)),
          (''suspicion_score'', suspicion_score r csv),
          (''recent_games'', to_val (recent_games r csv)),
          (''recent_wins'', to_val (recent_wins r csv)),
          (''recent_draws'', to_val (recent_draws r csv)),
          (''recent_losses'', to_val (recent_losses r csv)),
          (''win_streak'', win_streak r csv),
          (''max_win_streak'', max_win_streak r csv),
          (''upset_wins'', upset_wins r csv),
          (''short_win_rate'', to_val (short_win_rate r csv)),
          (''timeout_win_ratio'', to_val (timeout_win_ratio r csv)),
          (''tourn_games'', to_val (t_games r csv)),
          (''tourn_wins'', to_val (t_wins r csv)),
          (''tourn_draws'', to_val (t_draws r csv)),
          (''tourn_losses'', to_val (t_losses r csv)),
          (''non_tourn_games'', to_val (nt_games r csv)),
          (''non_tourn_wins'', to_val (nt_wins r csv)),
          (''non_tourn_draws'', to_val (nt_draws r csv)),
          (''non_tourn_losses'', to_val (nt_losses r csv)),
          (''tourn_win_rate'', to_val (tWR r csv)),
          (''non_tourn_win_rate'', to_val (ntWR r csv)),
          (''wr_gap'', to_val (wr_gap r csv)),
          (''elo_gain'', to_val (elo_gain r csv)),
          (''elo_loss'', to_val (elo_loss r csv)),
          (''elo_ratio'', to_val (elo_ratio r csv)),
          (''tourn_elo_gain'', to_val (t_elo_gain r csv)),
          (''tourn_elo_loss'', to_val (t_elo_loss r csv)),
          (''tourn_elo_ratio'', to_val (t_elo_ratio r csv)),
          (''non_tourn_elo_gain'', to_val (nt_elo_gain r csv)),
          (''non_tourn_elo_loss'', to_val (nt_elo_loss r csv)),
          (''non_tourn_elo_ratio'', to_val (nt_elo_ratio r csv)),
          (''elo_ratio_gap'', to_val (elo_ratio_gap r csv)),
          (''t_self_bail_loss_ratio'', to_val (t_self_bail_loss_ratio r csv)),
          (''nt_self_bail_loss_ratio'', to_val (nt_self_bail_loss_ratio r csv)),
          (''reasons'', reasonsStr r csv)])"

section \<open>The row sorter\<close>









definition score_less :: "rat option \<Rightarrow> rat option \<Rightarrow> bool" where
  "score_less x y = (case y of None \<Rightarrow> False | Some b \<Rightarrow> (case x of None \<Rightarrow> True | Some a \<Rightarrow> a < b))"


section \<open>Notions used in the statements\<close>

text \<open>
  A numeral token in the words of the specification: an optional leading minus sign, one
  or more digits, and optionally a dot followed by one or more digits.
\<close>

definition is_digit :: "char \<Rightarrow> bool" where
  "is_digit c \<longleftrightarrow> c \<in> set digit_chars"

definition unsigned_token :: "string \<Rightarrow> bool" where
  "unsigned_token u =
     (let ip = takeWhile is_digit u; fr = dropWhile is_digit u
      in ip \<noteq> [] \<and> (case fr of [] \<Rightarrow> True | c # fp \<Rightarrow> c = CHR ''.'' \<and> fp \<noteq> [] \<and> list_all is_digit fp))"

definition numeral_token :: "string \<Rightarrow> bool" where
  "numeral_token t = (case t of [] \<Rightarrow> False | c # u \<Rightarrow> unsigned_token (if c = CHR ''-'' then u else t))"

definition starts_digit :: "string \<Rightarrow> bool" where
  "starts_digit s = (case s of [] \<Rightarrow> False | c # _ \<Rightarrow> is_digit c)"




text \<open>The side-table row as \<open>getCSV\<close> leaves it.\<close>

definition primed :: "srow \<Rightarrow> srow" where
  "primed ps = (if \<not> truthy (own_prop ps ''__normIndex'')
                then define_hidden ps ''__normIndex'' (build_index ps) else ps)"

text \<open>
  The shape of a numeric field in the words of the specification: a finite number or
  the explicit unknown \<^verbatim>\<open>null\<close>; a finite number that is a whole multiple of \<open>1/d\<close> (one
  decimal for \<open>d = 10\<close>, three for \<open>d = 1000\<close>) or the explicit unknown.
\<close>

fun finite_or_unknown :: "val \<Rightarrow> bool" where
  "finite_or_unknown VNull = True"
| "finite_or_unknown (VNum n) = (case n of Fin q \<Rightarrow> True | _ \<Rightarrow> False)"
| "finite_or_unknown _ = False"


definition tenths :: "rat option \<Rightarrow> bool" where
  "tenths x = (case x of None \<Rightarrow> True | Some q \<Rightarrow> of_int \<lfloor>q * 10\<rfloor> = q * 10)"

definition thousandths :: "rat option \<Rightarrow> bool" where
  "thousandths x = (case x of None \<Rightarrow> True | Some q \<Rightarrow> of_int \<lfloor>q * 1000\<rfloor> = q * 1000)"




text \<open>
  The first tier of every coerced field, as the source writes it: the key of the output
  row, the coercer, and the dotted-path candidates handed to \<open>pick\<close>.
\<close>

definition structured_tier :: "(string \<times> (val \<Rightarrow> rat option) \<times> string list) list" where
  "structured_tier =
     [(''tourn_games'', num, [''tournament.games'', ''t.games'', ''tourn.games'']),
      (''tourn_wins'', num, [''tournament.wins'', ''t.wins'', ''tourn.wins'']),
      (''tourn_draws'', num, [''tournament.draws'', ''t.draws'', ''tourn.draws'']),
      (''tourn_losses'', num, [''tournament.losses'', ''t.losses'', ''tourn.losses'']),
      (''tourn_win_rate'', pct, [''tournament.win_rate'', ''t.win_rate'']),
      (''non_tourn_games'', num, [''non_tournament.games'', ''nt.games'']),
      (''non_tourn_wins'', num, [''non_tournament.wins'', ''nt.wins'']),
      (''non_tourn_draws'', num, [''non_tournament.draws'', ''nt.draws'']),
      (''non_tourn_losses'', num, [''non_tournament.losses'', ''nt.losses'']),
      (''non_tourn_win_rate'', pct, [''non_tournament.win_rate'', ''nt.win_rate'']),
      (''recent_games'', num, [''totals.games'', ''lifetime_games'', ''recent.games'', ''games'']),
      (''recent_wins'', num, [''totals.wins'', ''wins'']),
      (''recent_draws'', num, [''totals.draws'', ''draws'']),
      (''recent_losses'', num, [''totals.losses'', ''losses'']),
      (''short_win_rate'', pct, [''ratios.short_win_rate'', ''short_win_rate'']),
      (''timeout_win_ratio'', pct, [''ratios.timeout_win_ratio'', ''timeout_win_ratio'']),
      (''elo_gain'', num, [''totals.elo.gain'', ''elo.gain'']),
      (''elo_loss'', num, [''totals.elo.loss'', ''elo.loss'']),
      (''elo_ratio'', rat, [''totals.elo.ratio'', ''elo.ratio'']),
      (''tourn_elo_gain'', num, [''tournament.elo.gain'', ''t.elo.gain'']),
      (''tourn_elo_loss'', num, [''tournament.elo.loss'', ''t.elo.loss'']),
      (''tourn_elo_ratio'', rat, [''tournament.elo.ratio'', ''t.elo.ratio'']),
      (''non_tourn_elo_gain'', num, [''non_tournament.elo.gain'', ''nt.elo.gain'']),
      (''non_tourn_elo_loss'', num, [''non_tournament.elo.loss'', ''nt.elo.loss'']),
      (''non_tourn_elo_ratio'', rat, [''non_tournament.elo.ratio'', ''nt.elo.ratio'']),
      (''t_self_bail_loss_ratio'', pct, [''ratios.self_bail_loss_ratio_t'']),
      (''nt_self_bail_loss_ratio'', pct, [''ratios.self_bail_loss_ratio_nt''])]"

section \<open>Inputs of the scenarios\<close>

text \<open>
  The end-to-end scenario of the specification: the structured source with its two
  splits, the narrative in its \<^verbatim>\<open>reasons\<close>, and no side-table row.
\<close>

definition scenario_text :: string where
  "scenario_text = ''flagged over 15 games (gap 0.42)''"

definition scenario_source :: val where
  "scenario_source =
     VObj [(''tournament'', VObj [(''games'', VNum (Fin 10)), (''wins'', VNum (Fin 7))]),
           (''non_tournament'', VObj [(''games'', VNum (Fin 5)), (''wins'', VNum (Fin 1))]),
           (''reasons'', VStr scenario_text)]"

text \<open>Tournament games known, non-tournament games unknown, nothing else.\<close>

definition partial_source :: val where
  "partial_source = VObj [(''tournament'', VObj [(''games'', VNum (Fin 10))])]"



text \<open>A source and a side-table row that disagree.\<close>

definition streak_source :: val where
  "streak_source = VObj [(''streak'', VNum (Fin 3)), (''max_streak'', VNum (Fin 4)),
                         (''upset_wins'', VNum (Fin 2)),
                         (''tournament'', VObj [(''games'', VStr ''n/a'')])]"

definition streak_side :: srow where
  "streak_side = [(''win_streak'', VNum (Fin 9), True), (''max_win_streak'', VNum (Fin 8), True),
                  (''upset_wins'', VNum (Fin 7), True), (''t_games'', VNum (Fin 5), True)]"

text \<open>A side-table row with a header named like the memo, holding an empty cell.\<close>

definition memo_side :: srow where
  "memo_side = [(''__normIndex'', VStr '''', True), (''games'', VNum (Fin 5), True)]"


section \<open>Rounding\<close>

lemma floor_half_rat [simp]: "\<lfloor>1 / 2 :: rat\<rfloor> = 0"
  by (simp add: floor_eq_iff)

lemma floor_neg_half_rat [simp]: "\<lfloor>- (1 / 2) :: rat\<rfloor> = - 1"
  by (simp add: floor_eq_iff)

lemma floor_rat_numeral_div [simp]:
  "\<lfloor>(numeral a / numeral b :: rat)\<rfloor> = numeral a div numeral b"
  by (metis floor_divide_of_int_eq of_int_numeral)

lemma floor_rat_neg_numeral_div [simp]:
  "\<lfloor>(- (numeral a / numeral b) :: rat)\<rfloor> = - numeral a div numeral b"
  by (metis divide_minus_left floor_divide_of_int_eq of_int_neg_numeral of_int_numeral)

lemma math_round_near: "\<bar>math_round x - x\<bar> \<le> 1 / 2"
  unfolding math_round_def by linarith




lemma finite_or_null_simps [simp]:
  "finite_or_null (Fin q) = Some q"
  "finite_or_null NaN = None"
  "finite_or_null PosInf = None"
  "finite_or_null NegInf = None"
  by (simp_all add: finite_or_null_def)

section \<open>The percent normalizer\<close>






section \<open>The rounding rule\<close>




section \<open>The numeric coercer\<close>












lemma unsigned_starts_digit: "unsigned_token u \<Longrightarrow> starts_digit u"
  by (cases u) (auto simp: unsigned_token_def Let_def starts_digit_def split: if_splits)






lemma token_not_minus_start:
  "numeral_token t \<Longrightarrow> hd t \<noteq> CHR ''-'' \<Longrightarrow> starts_digit t"
  by (cases t) (auto simp: numeral_token_def dest: unsigned_starts_digit)








section \<open>The memo of the alias lookup\<close>

lemma own_prop_define_hidden [simp]: "own_prop (define_hidden ps k v) k = v"
proof (cases "k \<in> set (map fst ps)")
  case True
  then have "map_of (map (\<lambda>(k', v', e'). if k' = k then (k', v, False) else (k', v', e')) ps) k = Some (v, False)"
  proof (induction ps)
    case Nil
    then show ?case by simp
  next
    case (Cons p ps)
    obtain k' v' e' where p: "p = (k', v', e')"
      by (cases p) auto
    show ?case
    proof (cases "k' = k")
      case True
      then show ?thesis by (simp add: p)
    next
      case False
      with Cons show ?thesis by (simp add: p)
    qed
  qed
  with True show ?thesis
    by (simp add: own_prop_def define_hidden_def)
next
  case False
  then have "map_of ps k = None"
    by (simp add: map_of_eq_None_iff)
  with False show ?thesis
    by (simp add: own_prop_def define_hidden_def map_add_def)
qed

lemma truthy_build_index [simp]: "truthy (build_index ps)"
  by (simp add: build_index_def)

lemma truthy_primed: "truthy (own_prop (primed ps) ''__normIndex'')"
  by (simp add: primed_def)

lemma primed_idem: "primed (primed ps) = primed ps"
  using truthy_primed [of ps] by (simp add: primed_def)

lemma getCSV_primed: "getCSV (Some ps) a = (first_alias (own_prop (primed ps) ''__normIndex'') a, Some (primed ps))"
  by (simp add: primed_def Let_def)

lemma getCSV_after: "csv_get (snd (getCSV csv a)) b = csv_get csv b"
proof (cases csv)
  case None
  then show ?thesis by (simp add: csv_get_def)
next
  case (Some ps)
  then show ?thesis
    by (simp only: csv_get_def getCSV_primed snd_conv fst_conv primed_idem)
qed

lemma getCSV_state_after: "snd (getCSV (snd (getCSV csv a)) b) = snd (getCSV csv a)"
proof (cases csv)
  case None
  then show ?thesis by simp
next
  case (Some ps)
  then show ?thesis
    by (simp only: getCSV_primed snd_conv fst_conv primed_idem)
qed

lemma object_entries_define_new:
  "k \<notin> set (map fst ps) \<Longrightarrow> object_entries (define_hidden ps k v) = object_entries ps"
  by (simp add: define_hidden_def object_entries_def)

lemma getCSV_frame:
  "''__normIndex'' \<notin> set (map fst ps) \<Longrightarrow> getCSV (Some ps) a = (v, Some ps') \<Longrightarrow> object_entries ps' = object_entries ps"
  by (auto simp: Let_def object_entries_define_new split: if_splits)

text \<open>
  C10. The memo is stored as a non-enumerable property: on a row that has no property
  named \<^verbatim>\<open>__normIndex\<close> a lookup leaves the entries as they were (lemma \<open>getCSV_frame\<close>),
  and on every row a repeated lookup returns the same value (lemma \<open>getCSV_after\<close>).
  The code departs from the claim on a row that has a header of that name with a falsy
  cell: the test \<^verbatim>\<open>!csv.__normIndex\<close> succeeds, and \<^verbatim>\<open>Object.defineProperty\<close> turns the
  header itself into the hidden memo, so it disappears from the entries of the row.
\<close>

theorem getCSV_hides_own_header:
  "object_entries memo_side = [(''__normIndex'', VStr ''''), (''games'', VNum (Fin 5))]
   \<and> getCSV (Some memo_side) [''games'']
     = (VNum (Fin 5),
        Some [(''__normIndex'', VObj [(''normindex'', VStr ''''), (''games'', VNum (Fin 5))], False),
              (''games'', VNum (Fin 5), True)])
   \<and> object_entries
        [(''__normIndex'', VObj [(''normindex'', VStr ''''), (''games'', VNum (Fin 5))], False),
         (''games'', VNum (Fin 5), True)]
     = [(''games'', VNum (Fin 5))]"
  unfolding memo_side_def by code_simp

section \<open>The fields of the output row\<close>


lemma strict_row_fields:
  fixes fr :: finrow and cs :: "string \<rightharpoonup> srow"
  defines "r \<equiv> qq (result fr) (VObj [])" and "csv \<equiv> cs (toLowerCase (username fr))"
  shows "get_prop (VObj (strict_row fr cs)) ''username'' = VStr (username fr)"
    and "get_prop (VObj (strict_row fr cs)) ''suspicion_score'' = suspicion_score r csv"
    and "get_prop (VObj (strict_row fr cs)) ''recent_games'' = to_val (recent_games r csv)"
    and "get_prop (VObj (strict_row fr cs)) ''recent_wins'' = to_val (recent_wins r csv)"
    and "get_prop (VObj (strict_row fr cs)) ''recent_draws'' = to_val (recent_draws r csv)"
    and "get_prop (VObj (strict_row fr cs)) ''recent_losses'' = to_val (recent_losses r csv)"
    and "get_prop (VObj (strict_row fr cs)) ''win_streak'' = win_streak r csv"
    and "get_prop (VObj (strict_row fr cs)) ''max_win_streak'' = max_win_streak r csv"
    and "get_prop (VObj (strict_row fr cs)) ''upset_wins'' = upset_wins r csv"
    and "get_prop (VObj (strict_row fr cs)) ''short_win_rate'' = to_val (short_win_rate r csv)"
    and "get_prop (VObj (strict_row fr cs)) ''timeout_win_ratio'' = to_val (timeout_win_ratio r csv)"
    and "get_prop (VObj (strict_row fr cs)) ''tourn_games'' = to_val (t_games r csv)"
    and "get_prop (VObj (strict_row fr cs)) ''tourn_wins'' = to_val (t_wins r csv)"
    and "get_prop (VObj (strict_row fr cs)) ''tourn_draws'' = to_val (t_draws r csv)"
    and "get_prop (VObj (strict_row fr cs)) ''tourn_losses'' = to_val (t_losses r csv)"
    and "get_prop (VObj (strict_row fr cs)) ''non_tourn_games'' = to_val (nt_games r csv)"
    and "get_prop (VObj (strict_row fr cs)) ''non_tourn_wins'' = to_val (nt_wins r csv)"
    and "get_prop (VObj (strict_row fr cs)) ''non_tourn_draws'' = to_val (nt_draws r csv)"
    and "get_prop (VObj (strict_row fr cs)) ''non_tourn_losses'' = to_val (nt_losses r csv)"
    and "get_prop (VObj (strict_row fr cs)) ''tourn_win_rate'' = to_val (tWR r csv)"
    and "get_prop (VObj (strict_row fr cs)) ''non_tourn_win_rate'' = to_val (ntWR r csv)"
    and "get_prop (VObj (strict_row fr cs)) ''wr_gap'' = to_val (wr_gap r csv)"
    and "get_prop (VObj (strict_row fr cs)) ''elo_gain'' = to_val (elo_gain r csv)"
    and "get_prop (VObj (strict_row fr cs)) ''elo_loss'' = to_val (elo_loss r csv)"
    and "get_prop (VObj (strict_row fr cs)) ''elo_ratio'' = to_val (elo_ratio r csv)"
    and "get_prop (VObj (strict_row fr cs)) ''tourn_elo_gain'' = to_val (t_elo_gain r csv)"
    and "get_prop (VObj (strict_row fr cs)) ''tourn_elo_loss'' = to_val (t_elo_loss r csv)"
    and "get_prop (VObj (strict_row fr cs)) ''tourn_elo_ratio'' = to_val (t_elo_ratio r csv)"
    and "get_prop (VObj (strict_row fr cs)) ''non_tourn_elo_gain'' = to_val (nt_elo_gain r csv)"
    and "get_prop (VObj (strict_row fr cs)) ''non_tourn_elo_loss'' = to_val (nt_elo_loss r csv)"
    and "get_prop (VObj (strict_row fr cs)) ''non_tourn_elo_ratio'' = to_val (nt_elo_ratio r csv)"
    and "get_prop (VObj (strict_row fr cs)) ''elo_ratio_gap'' = to_val (elo_ratio_gap r csv)"
    and "get_prop (VObj (strict_row fr cs)) ''t_self_bail_loss_ratio'' = to_val (t_self_bail_loss_ratio r csv)"
    and "get_prop (VObj (strict_row fr cs)) ''nt_self_bail_loss_ratio'' = to_val (nt_self_bail_loss_ratio r csv)"
    and "get_prop (VObj (strict_row fr cs)) ''reasons'' = reasonsStr r csv"
  unfolding r_def csv_def by (simp_all add: strict_row_def Let_def)

section \<open>The scenario and the derived totals\<close>

lemma scenario_parsed:
  "parseFromReasons (VStr scenario_text) =
     \<lparr>p_games = Some 15, p_elo = None, p_tElo = None, p_ntElo = None,
      p_gap = Some (42 / 100), p_ntSelfBail = None, p_upsets = None\<rparr>"
  by code_simp

lemma scenario_reasons: "reasonsStr scenario_source None = VStr scenario_text"
  by (simp add: reasonsStr_def scenario_source_def)

lemma scenario_parsed_of:
  "parsed_of scenario_source None =
     \<lparr>p_games = Some 15, p_elo = None, p_tElo = None, p_ntElo = None,
      p_gap = Some (42 / 100), p_ntSelfBail = None, p_upsets = None\<rparr>"
  by (simp add: parsed_of_def scenario_reasons scenario_parsed)

lemma scenario_qq: "qq scenario_source (VObj []) = scenario_source"
  by (simp add: qq_def scenario_source_def)

text \<open>
  C1. In the end-to-end scenario the row has \<^verbatim>\<open>recent_games\<close> 15, \<^verbatim>\<open>tourn_win_rate\<close> 70.0
  and \<^verbatim>\<open>elo_ratio_gap\<close> 0.42. No direct win rate exists, and 70 is the rate
  \<open>7 / 10 * 100\<close> rounded to one decimal; neither elo ratio is known and the side table
  has no gap, so the gap is the one the narrative states.
\<close>

theorem end_to_end_scenario:
  "get_prop (VObj (strict_row \<lparr>username = u, result = scenario_source\<rparr> Map.empty)) ''recent_games''
     = VNum (Fin 15)
   \<and> get_prop (VObj (strict_row \<lparr>username = u, result = scenario_source\<rparr> Map.empty)) ''tourn_win_rate''
     = VNum (Fin 70)
   \<and> get_prop (VObj (strict_row \<lparr>username = u, result = scenario_source\<rparr> Map.empty)) ''elo_ratio_gap''
     = VNum (Fin (42 / 100))
   \<and> tWR0 scenario_source None = None
   \<and> math_round (7 / 10 * 100 * 10) / 10 = 70
   \<and> t_elo_ratio scenario_source None = None
   \<and> nt_elo_ratio scenario_source None = None
   \<and> rat (csv_get None A_eloRatioGap) = None
   \<and> p_gap (parsed_of scenario_source None) = Some (42 / 100)"
proof -
  have games: "recent_games scenario_source None = Some 15"
    unfolding recent_games_def recent_games0_def scenario_parsed_of scenario_source_def
    by code_simp
  have wr0: "tWR0 scenario_source None = None"
    unfolding tWR0_def scenario_source_def by code_simp
  have wr: "tWR scenario_source None = Some 70"
    unfolding tWR_def wr0 t_wins_def t_games_def scenario_source_def by code_simp
  have te: "t_elo_ratio scenario_source None = None"
    unfolding t_elo_ratio_def scenario_parsed_of scenario_source_def by code_simp
  have nte: "nt_elo_ratio scenario_source None = None"
    unfolding nt_elo_ratio_def scenario_parsed_of scenario_source_def by code_simp
  have direct: "rat (csv_get None A_eloRatioGap) = None"
    by (simp add: csv_get_def rat_def)
  have gap: "elo_ratio_gap scenario_source None = Some (42 / 100)"
    unfolding elo_ratio_gap_def te nte direct scenario_parsed_of by (simp add: orelse_def)
  have r: "math_round (7 / 10 * 100 * 10) / 10 = 70"
    by (simp add: math_round_def)
  have pg: "p_gap (parsed_of scenario_source None) = Some (42 / 100)"
    by (simp add: scenario_parsed_of)
  have f1: "get_prop (VObj (strict_row \<lparr>username = u, result = scenario_source\<rparr> Map.empty)) ''recent_games''
     = VNum (Fin 15)"
    by (simp add: strict_row_fields scenario_qq games to_val_def del: get_prop.simps)
  have f2: "get_prop (VObj (strict_row \<lparr>username = u, result = scenario_source\<rparr> Map.empty)) ''tourn_win_rate''
     = VNum (Fin 70)"
    by (simp add: strict_row_fields scenario_qq wr to_val_def del: get_prop.simps)
  have f3: "get_prop (VObj (strict_row \<lparr>username = u, result = scenario_source\<rparr> Map.empty)) ''elo_ratio_gap''
     = VNum (Fin (42 / 100))"
    by (simp add: strict_row_fields scenario_qq gap to_val_def del: get_prop.simps)
  from f1 f2 f3 wr0 r te nte direct pg show ?thesis
    by (intro conjI)
qed

text \<open>
  C9. Each of \<^verbatim>\<open>recent_games\<close>, \<^verbatim>\<open>recent_wins\<close>, \<^verbatim>\<open>recent_draws\<close> and \<^verbatim>\<open>recent_losses\<close> is
  its direct value when the earlier tiers give one; otherwise it is the tournament value
  plus the non-tournament value when both are known, and unknown when either is unknown.
  With tournament games 10 and non-tournament games unknown, \<^verbatim>\<open>recent_games\<close> is unknown.
\<close>

theorem recent_totals_null_propagating:
  "recent_games r csv =
     (case recent_games0 r csv of Some v \<Rightarrow> Some v
      | None \<Rightarrow> (case t_games r csv of None \<Rightarrow> None
                 | Some a \<Rightarrow> (case nt_games r csv of None \<Rightarrow> None | Some b \<Rightarrow> Some (a + b))))
   \<and> recent_wins r csv =
     (case recent_wins0 r csv of Some v \<Rightarrow> Some v
      | None \<Rightarrow> (case t_wins r csv of None \<Rightarrow> None
                 | Some a \<Rightarrow> (case nt_wins r csv of None \<Rightarrow> None | Some b \<Rightarrow> Some (a + b))))
   \<and> recent_draws r csv =
     (case recent_draws0 r csv of Some v \<Rightarrow> Some v
      | None \<Rightarrow> (case t_draws r csv of None \<Rightarrow> None
                 | Some a \<Rightarrow> (case nt_draws r csv of None \<Rightarrow> None | Some b \<Rightarrow> Some (a + b))))
   \<and> recent_losses r csv =
     (case recent_losses0 r csv of Some v \<Rightarrow> Some v
      | None \<Rightarrow> (case t_losses r csv of None \<Rightarrow> None
                 | Some a \<Rightarrow> (case nt_losses r csv of None \<Rightarrow> None | Some b \<Rightarrow> Some (a + b))))
   \<and> sumNN (Some 10) None = None
   \<and> get_prop (VObj (strict_row \<lparr>username = u, result = partial_source\<rparr> Map.empty)) ''tourn_games''
       = VNum (Fin 10)
   \<and> get_prop (VObj (strict_row \<lparr>username = u, result = partial_source\<rparr> Map.empty)) ''non_tourn_games''
       = VNull
   \<and> get_prop (VObj (strict_row \<lparr>username = u, result = partial_source\<rparr> Map.empty)) ''recent_games''
       = VNull"
proof -
  have q: "qq partial_source (VObj []) = partial_source"
    by (simp add: qq_def partial_source_def)
  have t: "t_games partial_source None = Some 10"
    unfolding t_games_def partial_source_def by code_simp
  have nt: "nt_games partial_source None = None"
    unfolding nt_games_def partial_source_def by code_simp
  have rs: "reasonsStr partial_source None = VStr ''''"
    by (simp add: reasonsStr_def partial_source_def csv_get_def qq_def)
  have p: "p_games (parsed_of partial_source None) = None"
    unfolding parsed_of_def rs by code_simp
  have g0: "recent_games0 partial_source None = None"
    unfolding recent_games0_def p partial_source_def by code_simp
  have g: "recent_games partial_source None = None"
    by (simp add: recent_games_def g0 t nt orelse_def sumNN_def)
  have f1: "get_prop (VObj (strict_row \<lparr>username = u, result = partial_source\<rparr> Map.empty)) ''tourn_games''
       = VNum (Fin 10)"
    by (simp add: strict_row_fields q t to_val_def del: get_prop.simps)
  have f2: "get_prop (VObj (strict_row \<lparr>username = u, result = partial_source\<rparr> Map.empty)) ''non_tourn_games''
       = VNull"
    by (simp add: strict_row_fields q nt to_val_def del: get_prop.simps)
  have f3: "get_prop (VObj (strict_row \<lparr>username = u, result = partial_source\<rparr> Map.empty)) ''recent_games''
       = VNull"
    by (simp add: strict_row_fields q g to_val_def del: get_prop.simps)
  have s: "sumNN (Some 10) None = None"
    by (simp add: sumNN_def)
  have a: "recent_games r csv =
     (case recent_games0 r csv of Some v \<Rightarrow> Some v
      | None \<Rightarrow> (case t_games r csv of None \<Rightarrow> None
                 | Some a \<Rightarrow> (case nt_games r csv of None \<Rightarrow> None | Some b \<Rightarrow> Some (a + b))))"
    by (simp add: recent_games_def orelse_def sumNN_def split: option.splits)
  have b: "recent_wins r csv =
     (case recent_wins0 r csv of Some v \<Rightarrow> Some v
      | None \<Rightarrow> (case t_wins r csv of None \<Rightarrow> None
                 | Some a \<Rightarrow> (case nt_wins r csv of None \<Rightarrow> None | Some b \<Rightarrow> Some (a + b))))"
    by (simp add: recent_wins_def orelse_def sumNN_def split: option.splits)
  have c: "recent_draws r csv =
     (case recent_draws0 r csv of Some v \<Rightarrow> Some v
      | None \<Rightarrow> (case t_draws r csv of None \<Rightarrow> None
                 | Some a \<Rightarrow> (case nt_draws r csv of None \<Rightarrow> None | Some b \<Rightarrow> Some (a + b))))"
    by (simp add: recent_draws_def orelse_def sumNN_def split: option.splits)
  have d: "recent_losses r csv =
     (case recent_losses0 r csv of Some v \<Rightarrow> Some v
      | None \<Rightarrow> (case t_losses r csv of None \<Rightarrow> None
                 | Some a \<Rightarrow> (case nt_losses r csv of None \<Rightarrow> None | Some b \<Rightarrow> Some (a + b))))"
    by (simp add: recent_losses_def orelse_def sumNN_def split: option.splits)
  from a b c d s f1 f2 f3 show ?thesis
    by (intro conjI)
qed

section \<open>The shape of the output row\<close>

lemma tenths_round [simp]: "tenths (Some (math_round x / 10))"
  by (simp add: tenths_def math_round_def)

lemma thousandths_round [simp]: "thousandths (Some (math_round x / 1000))"
  by (simp add: thousandths_def math_round_def)

lemma tenths_None [simp]: "tenths None"
  by (simp add: tenths_def)

lemma thousandths_None [simp]: "thousandths None"
  by (simp add: thousandths_def)

lemma tenths_pct [simp]: "tenths (pct v)"
  by (simp add: pct_def Let_def split: option.splits)

lemma thousandths_rat [simp]: "thousandths (rat v)"
  by (simp add: rat_def split: option.splits)

lemma tenths_orelse [simp]: "tenths a \<Longrightarrow> tenths b \<Longrightarrow> tenths (orelse a b)"
  by (cases a) (simp_all add: orelse_def)

lemma thousandths_orelse [simp]: "thousandths a \<Longrightarrow> thousandths b \<Longrightarrow> thousandths (orelse a b)"
  by (cases a) (simp_all add: orelse_def)

lemma tenths_on_match [simp]: "tenths (on_match pct m)"
  by (simp add: on_match_def split: option.splits)

lemma thousandths_on_match [simp]: "thousandths (on_match rat m)"
  by (simp add: on_match_def split: option.splits)

lemma tenths_rate [simp]: "tenths wr \<Longrightarrow> tenths (rate_from_counts wr w g)"
  by (cases wr; cases w; cases g) (simp_all add: rate_from_counts_def)

lemma parsed_rounded [simp]:
  "thousandths (p_elo (parsed_of r csv))" "thousandths (p_tElo (parsed_of r csv))"
  "thousandths (p_ntElo (parsed_of r csv))" "thousandths (p_gap (parsed_of r csv))"
  "tenths (p_ntSelfBail (parsed_of r csv))"
  by (simp_all add: parsed_of_def parseFromReasons_def Let_def)



lemma finite_to_val [simp]: "finite_or_unknown (to_val x)"
  by (simp add: to_val_def split: option.splits)







section \<open>Precedence of the sources\<close>

text \<open>
  C2, as stated, fails: for \<^verbatim>\<open>win_streak\<close>, \<^verbatim>\<open>max_win_streak\<close> and \<^verbatim>\<open>upset_wins\<close> the builder
  asks the side-table row first, so its value wins over the one \<open>pick\<close> resolves; and a
  structured leaf that does not coerce to a number (here the text \<^verbatim>\<open>n/a\<close>) gives way to
  the side-table value.
\<close>

theorem side_table_first_counterexample:
  "pick streak_source [''streak''] = VNum (Fin 3)
   \<and> get_prop (VObj (strict_row \<lparr>username = ''u'', result = streak_source\<rparr> (\<lambda>k. Some streak_side))) ''win_streak''
     = VNum (Fin 9)
   \<and> pick streak_source [''max_streak''] = VNum (Fin 4)
   \<and> get_prop (VObj (strict_row \<lparr>username = ''u'', result = streak_source\<rparr> (\<lambda>k. Some streak_side))) ''max_win_streak''
     = VNum (Fin 8)
   \<and> pick streak_source [''upset_wins''] = VNum (Fin 2)
   \<and> get_prop (VObj (strict_row \<lparr>username = ''u'', result = streak_source\<rparr> (\<lambda>k. Some streak_side))) ''upset_wins''
     = VNum (Fin 7)
   \<and> pick streak_source [''tournament.games'', ''t.games'', ''tourn.games''] = VStr ''n/a''
   \<and> get_prop (VObj (strict_row \<lparr>username = ''u'', result = streak_source\<rparr> (\<lambda>k. Some streak_side))) ''tourn_games''
     = VNum (Fin 5)"
proof -
  have q: "qq streak_source (VObj []) = streak_source"
    by (simp add: qq_def streak_source_def)
  have a: "win_streak streak_source (Some streak_side) = VNum (Fin 9)"
    unfolding win_streak_def streak_source_def streak_side_def by code_simp
  have b: "max_win_streak streak_source (Some streak_side) = VNum (Fin 8)"
    unfolding max_win_streak_def streak_source_def streak_side_def by code_simp
  have c: "upset_wins streak_source (Some streak_side) = VNum (Fin 7)"
    unfolding upset_wins_def streak_source_def streak_side_def by code_simp
  have d: "t_games streak_source (Some streak_side) = Some 5"
    unfolding t_games_def streak_source_def streak_side_def by code_simp
  have p: "pick streak_source [''streak''] = VNum (Fin 3)"
    "pick streak_source [''max_streak''] = VNum (Fin 4)"
    "pick streak_source [''upset_wins''] = VNum (Fin 2)"
    "pick streak_source [''tournament.games'', ''t.games'', ''tourn.games''] = VStr ''n/a''"
    unfolding streak_source_def by code_simp+
  show ?thesis
    by (simp add: strict_row_fields q a b c d p to_val_def del: get_prop.simps pick.simps)
qed

lemma orelse_Some [simp]: "orelse (Some x) b = Some x"
  by (simp add: orelse_def)

lemma orelse_None [simp]: "orelse None b = b"
  by (simp add: orelse_def)

lemma rate_from_counts_Some [simp]: "rate_from_counts (Some x) w g = Some x"
  by (simp add: rate_from_counts_def)

lemma qq_simps [simp]: "\<not> nullish a \<Longrightarrow> qq a b = a" "nullish a \<Longrightarrow> qq a b = b"
  by (simp_all add: qq_def)

text \<open>
  C2, amended. For every coerced field with dotted-path candidates, when the value that
  \<open>pick\<close> resolves coerces to a number under the coercer of the field, that number is the
  output, whatever the side-table row and the narrative hold; \<^verbatim>\<open>suspicion_score\<close> takes
  any non-null value that \<open>pick\<close> resolves, as it is. For \<^verbatim>\<open>win_streak\<close>, \<^verbatim>\<open>max_win_streak\<close>
  and \<^verbatim>\<open>upset_wins\<close> the side-table value comes first, and the structured value is the
  output only when the side-table row has none.
\<close>

theorem structured_precedence:
  fixes fr :: finrow and cs :: "string \<rightharpoonup> srow"
  defines "r \<equiv> qq (result fr) (VObj [])" and "csv \<equiv> cs (toLowerCase (username fr))"
  shows
    "(\<forall>(k, c, ps) \<in> set structured_tier. \<forall>v. c (pick r ps) = Some v \<longrightarrow>
        get_prop (VObj (strict_row fr cs)) k = VNum (Fin v))
     \<and> (\<not> nullish (pick r [''suspicion_score'', ''suspicion.score'']) \<longrightarrow>
          get_prop (VObj (strict_row fr cs)) ''suspicion_score''
            = pick r [''suspicion_score'', ''suspicion.score''])
     \<and> (\<not> nullish (csv_get csv A_streak) \<longrightarrow>
          get_prop (VObj (strict_row fr cs)) ''win_streak'' = csv_get csv A_streak)
     \<and> (\<not> nullish (csv_get csv A_maxStreak) \<longrightarrow>
          get_prop (VObj (strict_row fr cs)) ''max_win_streak'' = csv_get csv A_maxStreak)
     \<and> (\<not> nullish (csv_get csv A_upsetWins) \<longrightarrow>
          get_prop (VObj (strict_row fr cs)) ''upset_wins'' = csv_get csv A_upsetWins)
     \<and> (nullish (csv_get csv A_streak) \<and> \<not> nullish (pick r [''streak'']) \<longrightarrow>
          get_prop (VObj (strict_row fr cs)) ''win_streak'' = pick r [''streak''])
     \<and> (nullish (csv_get csv A_maxStreak) \<and> \<not> nullish (pick r [''max_streak'']) \<longrightarrow>
          get_prop (VObj (strict_row fr cs)) ''max_win_streak'' = pick r [''max_streak''])
     \<and> (nullish (csv_get csv A_upsetWins) \<and> \<not> nullish (pick r [''upset_wins'']) \<longrightarrow>
          get_prop (VObj (strict_row fr cs)) ''upset_wins'' = pick r [''upset_wins''])"
proof -
  have tier: "\<forall>(k, c, ps) \<in> set structured_tier. \<forall>v. c (pick r ps) = Some v \<longrightarrow>
        get_prop (VObj (strict_row fr cs)) k = VNum (Fin v)"
    unfolding r_def csv_def structured_tier_def
    by (simp add: strict_row_fields to_val_def
          t_games_def t_wins_def t_draws_def t_losses_def tWR_def tWR0_def
          nt_games_def nt_wins_def nt_draws_def nt_losses_def ntWR_def ntWR0_def
          recent_games_def recent_wins_def recent_draws_def recent_losses_def
          recent_games0_def recent_wins0_def recent_draws0_def recent_losses0_def
          short_win_rate_def timeout_win_ratio_def elo_gain_def elo_loss_def elo_ratio_def
          t_elo_gain_def t_elo_loss_def t_elo_ratio_def nt_elo_gain_def nt_elo_loss_def
          nt_elo_ratio_def t_self_bail_loss_ratio_def nt_self_bail_loss_ratio_def
          del: get_prop.simps pick.simps num.simps)
  have raw: "\<not> nullish (pick r [''suspicion_score'', ''suspicion.score'']) \<longrightarrow>
          get_prop (VObj (strict_row fr cs)) ''suspicion_score''
            = pick r [''suspicion_score'', ''suspicion.score'']"
    unfolding r_def csv_def
    by (simp add: strict_row_fields suspicion_score_def del: get_prop.simps pick.simps)
  have s1: "\<not> nullish (csv_get csv A_streak) \<longrightarrow>
          get_prop (VObj (strict_row fr cs)) ''win_streak'' = csv_get csv A_streak"
    unfolding r_def csv_def
    by (simp add: strict_row_fields win_streak_def del: get_prop.simps pick.simps)
  have s2: "\<not> nullish (csv_get csv A_maxStreak) \<longrightarrow>
          get_prop (VObj (strict_row fr cs)) ''max_win_streak'' = csv_get csv A_maxStreak"
    unfolding r_def csv_def
    by (simp add: strict_row_fields max_win_streak_def del: get_prop.simps pick.simps)
  have s3: "\<not> nullish (csv_get csv A_upsetWins) \<longrightarrow>
          get_prop (VObj (strict_row fr cs)) ''upset_wins'' = csv_get csv A_upsetWins"
    unfolding r_def csv_def
    by (simp add: strict_row_fields upset_wins_def Let_def del: get_prop.simps pick.simps)
  have t1: "nullish (csv_get csv A_streak) \<and> \<not> nullish (pick r [''streak'']) \<longrightarrow>
          get_prop (VObj (strict_row fr cs)) ''win_streak'' = pick r [''streak'']"
    unfolding r_def csv_def
    by (simp add: strict_row_fields win_streak_def del: get_prop.simps pick.simps)
  have t2: "nullish (csv_get csv A_maxStreak) \<and> \<not> nullish (pick r [''max_streak'']) \<longrightarrow>
          get_prop (VObj (strict_row fr cs)) ''max_win_streak'' = pick r [''max_streak'']"
    unfolding r_def csv_def
    by (simp add: strict_row_fields max_win_streak_def del: get_prop.simps pick.simps)
  have t3: "nullish (csv_get csv A_upsetWins) \<and> \<not> nullish (pick r [''upset_wins'']) \<longrightarrow>
          get_prop (VObj (strict_row fr cs)) ''upset_wins'' = pick r [''upset_wins'']"
    unfolding r_def csv_def
    by (simp add: strict_row_fields upset_wins_def Let_def del: get_prop.simps pick.simps)
  from tier raw s1 s2 s3 t1 t2 t3 show ?thesis
    by (intro conjI)
qed

theorem structured_precedence_witness:
  "num (pick scenario_source [''tournament.games'', ''t.games'', ''tourn.games'']) = Some 10
   \<and> csv_get (Some streak_side) A_tGames = VNum (Fin 5)
   \<and> get_prop (VObj (strict_row \<lparr>username = ''u'', result = scenario_source\<rparr> (\<lambda>k. Some streak_side))) ''tourn_games''
       = VNum (Fin 10)
   \<and> \<not> nullish (csv_get (Some streak_side) A_streak)
   \<and> get_prop (VObj (strict_row \<lparr>username = ''u'', result = scenario_source\<rparr> (\<lambda>k. Some streak_side))) ''win_streak''
       = VNum (Fin 9)"
proof -
  have q: "qq scenario_source (VObj []) = scenario_source"
    by (simp add: qq_def scenario_source_def)
  have a: "num (pick scenario_source [''tournament.games'', ''t.games'', ''tourn.games'']) = Some 10"
    unfolding scenario_source_def by code_simp
  have b: "csv_get (Some streak_side) A_tGames = VNum (Fin 5)"
    unfolding streak_side_def by code_simp
  have c: "csv_get (Some streak_side) A_streak = VNum (Fin 9)"
    unfolding streak_side_def by code_simp
  have m: "(''tourn_games'', num, [''tournament.games'', ''t.games'', ''tourn.games'']) \<in> set structured_tier"
    by (simp add: structured_tier_def)
  from structured_precedence [of "\<lparr>username = ''u'', result = scenario_source\<rparr>" "\<lambda>k. Some streak_side"]
  have t: "\<forall>(k, c, ps) \<in> set structured_tier. \<forall>v. c (pick scenario_source ps) = Some v \<longrightarrow>
        get_prop (VObj (strict_row \<lparr>username = ''u'', result = scenario_source\<rparr> (\<lambda>k. Some streak_side))) k = VNum (Fin v)"
    and s: "\<not> nullish (csv_get (Some streak_side) A_streak) \<longrightarrow>
        get_prop (VObj (strict_row \<lparr>username = ''u'', result = scenario_source\<rparr> (\<lambda>k. Some streak_side))) ''win_streak''
          = csv_get (Some streak_side) A_streak"
    by (simp_all add: q del: get_prop.simps pick.simps)
  from t m a have "get_prop (VObj (strict_row \<lparr>username = ''u'', result = scenario_source\<rparr> (\<lambda>k. Some streak_side))) ''tourn_games''
       = VNum (Fin 10)"
    by blast
  moreover from s c have "get_prop (VObj (strict_row \<lparr>username = ''u'', result = scenario_source\<rparr> (\<lambda>k. Some streak_side))) ''win_streak''
       = VNum (Fin 9)"
    by simp
  ultimately show ?thesis
    using a b c by simp
qed

section \<open>The order of the rows\<close>








lemma score_less_irrefl [simp]: "\<not> score_less x x"
  by (cases x) (simp_all add: score_less_def)



lemma score_less_asym: "score_less x y \<Longrightarrow> \<not> score_less y x"
  by (cases x; cases y) (auto simp: score_less_def)










end
